theory Spec2Isabelle
  imports Complex_Main
begin

section \<open>The viewer application of \<^verbatim>\<open>src/main.ts\<close>\<close>

text \<open>
  The program is one class, \<^verbatim>\<open>App\<close>: a constructor and the four handlers
  \<^verbatim>\<open>animate\<close>, \<^verbatim>\<open>onWindowResize\<close>, \<^verbatim>\<open>onDocumentClick\<close> and \<^verbatim>\<open>onKeyPress\<close>.
  Each handler runs to completion on the single JavaScript thread, so a handler is a
  function from the state before it to the state after it. What a handler reads from its
  surroundings is a parameter of the function: the clock \<^verbatim>\<open>Date.now()\<close>, the window
  size, the pressed key, and the list that \<^verbatim>\<open>raycaster.intersectObjects\<close> returned.
  Drawing, the projection matrix and the orbit controls belong to the graphics library and
  are left out; nothing in the class moves the camera after the constructor.

  JavaScript numbers are modelled as follows. \<^verbatim>\<open>Date.now()\<close> and \<^verbatim>\<open>startTime\<close> are
  integers (milliseconds), \<^verbatim>\<open>activeMaterialIndex\<close> is an array index and a natural
  number, and every other number is a \<^typ>\<open>real\<close>: the arithmetic of \<^verbatim>\<open>animate\<close> is
  exact here, the rounding of IEEE doubles is not part of the model.
\<close>

subsection \<open>Values of the graphics library\<close>

datatype vector2 = Vector2 (v2x: real) (v2y: real)

datatype vector3 = Vector3 (vx: real) (vy: real) (vz: real)

datatype color = Color nat

text \<open>\<^verbatim>\<open>Vector3.normalize()\<close> divides by the length, or by 1 when the length is 0.\<close>

definition normalize :: "vector3 \<Rightarrow> vector3" where
  "normalize v =
     (let len = sqrt (vx v * vx v + vy v * vy v + vz v * vz v);
          d = (if len = 0 then 1 else len)
      in Vector3 (vx v / d) (vy v / d) (vz v / d))"

text \<open>
  A quotient of two numbers. A division by zero gives \<^verbatim>\<open>Infinity\<close> or \<^verbatim>\<open>NaN\<close> in
  JavaScript, which is no real number: \<open>None\<close> stands for both.
\<close>

definition js_div :: "real \<Rightarrow> real \<Rightarrow> real option" where
  "js_div a b = (if b = 0 then None else Some (a / b))"

record perspective_camera =
  fov :: real
  aspect :: "real option"
  near :: real
  far :: real
  position :: vector3

subsection \<open>The uniforms of the two materials\<close>

text \<open>
  The uniforms that both materials have, and the ones that only one of them has. The
  other properties of a material (its shaders, \<^verbatim>\<open>transparent\<close>, \<^verbatim>\<open>glslVersion\<close>,
  \<^verbatim>\<open>side\<close>) are set once in the constructor and never read or written by the class.
\<close>

record uniforms =
  u_time :: real
  u_resolution :: vector2
  u_lightDirection :: vector3
  u_lightColor :: color
  u_objectColor :: color
  cameraPosition :: vector3

record wave_uniforms = uniforms +
  u_elasticity :: real
  u_clickTime :: real
  u_clickPosition :: vector3
  u_shininess :: real
  u_transparency :: real
  u_jiggleIntensity :: real

record creative_uniforms = uniforms +
  u_inflateAmount :: real

text \<open>
  The two material objects, and the array \<^verbatim>\<open>this.materials\<close> that holds them. The
  array is assigned once, in the constructor. Reading a JavaScript array out of range
  gives \<^verbatim>\<open>undefined\<close>, here \<open>None\<close>.
\<close>

datatype material = WaveMaterial | CreativeMaterial

definition materials :: "material list" where
  "materials = [WaveMaterial, CreativeMaterial]"

definition material_at :: "nat \<Rightarrow> material option" where
  "material_at i = (if i < length materials then Some (materials ! i) else None)"

subsection \<open>The state of the application\<close>

text \<open>
  The fields of \<^verbatim>\<open>App\<close>. The mesh refers to one of the two material objects, so
  \<open>meshMaterial\<close> holds which one; the uniforms of each object are stored once, in
  \<open>waveUniforms\<close> and \<open>creativeUniforms\<close>. \<open>rendererSize\<close> is what
  \<^verbatim>\<open>renderer.setSize\<close> was last given, \<open>consoleLog\<close> the indices that
  \<^verbatim>\<open>console.log\<close> has printed.
\<close>

record app =
  camera :: perspective_camera
  rendererSize :: "real \<times> real"
  waveUniforms :: wave_uniforms
  creativeUniforms :: creative_uniforms
  meshMaterial :: "material option"
  activeMaterialIndex :: nat
  startTime :: int
  clickTime :: real
  clickPosition :: vector3
  elasticity :: real
  consoleLog :: "nat list"

subsection \<open>\<^verbatim>\<open>animate\<close>\<close>

text \<open>\<^verbatim>\<open>(Date.now() - this.startTime) / 1000\<close>, with the clock reading \<open>now\<close>.\<close>

definition elapsed :: "int \<Rightarrow> app \<Rightarrow> real" where
  "elapsed now s = real_of_int (now - startTime s) / 1000"

text \<open>The body of the \<^verbatim>\<open>forEach\<close>, on the uniforms of either material.\<close>

definition frame_uniforms :: "real \<Rightarrow> vector3 \<Rightarrow> 'a uniforms_scheme \<Rightarrow> 'a uniforms_scheme" where
  "frame_uniforms elapsedTime pos u = u\<lparr>u_time := elapsedTime, cameraPosition := pos\<rparr>"

fun update_material :: "real \<Rightarrow> material \<Rightarrow> app \<Rightarrow> app" where
  "update_material elapsedTime WaveMaterial s =
     s\<lparr>waveUniforms := frame_uniforms elapsedTime (position (camera s)) (waveUniforms s)\<rparr>"
| "update_material elapsedTime CreativeMaterial s =
     s\<lparr>creativeUniforms := frame_uniforms elapsedTime (position (camera s)) (creativeUniforms s)\<rparr>"

text \<open>
  One frame: the uniforms of both materials, the damping of the elasticity, and its copy
  into the uniform of \<^verbatim>\<open>materials[0]\<close>, the wave material. The draw call and the request
  for the next frame belong to the library and the browser.
\<close>

definition animate :: "int \<Rightarrow> app \<Rightarrow> app" where
  "animate now s =
     (let elapsedTime = elapsed now s;
          s1 = fold (update_material elapsedTime) materials s;
          s2 = (if elasticity s1 > 0.001
                then s1\<lparr>elasticity := elasticity s1 - 0.02 * elasticity s1\<rparr>
                else s1\<lparr>elasticity := 0\<rparr>)
      in s2\<lparr>waveUniforms := (waveUniforms s2)\<lparr>u_elasticity := elasticity s2\<rparr>\<rparr>)"

subsection \<open>\<^verbatim>\<open>onWindowResize\<close>\<close>

text \<open>\<open>width\<close> and \<open>height\<close> are \<^verbatim>\<open>window.innerWidth\<close> and \<^verbatim>\<open>window.innerHeight\<close>.\<close>

definition onWindowResize :: "real \<Rightarrow> real \<Rightarrow> app \<Rightarrow> app" where
  "onWindowResize width height s =
     s\<lparr>rendererSize := (width, height),
       camera := (camera s)\<lparr>aspect := js_div width height\<rparr>\<rparr>"

subsection \<open>\<^verbatim>\<open>onDocumentClick\<close>\<close>

text \<open>
  \<open>intersects\<close> is the array that \<^verbatim>\<open>raycaster.intersectObjects\<close> returned for this
  click, nearest first, each intersection given by its \<^verbatim>\<open>point\<close>. The mouse vector is
  computed from the event only to be handed to the ray caster, which is the library's.
\<close>

definition onDocumentClick :: "int \<Rightarrow> vector3 list \<Rightarrow> app \<Rightarrow> app" where
  "onDocumentClick now intersects s =
     (let s1 = s\<lparr>clickTime := elapsed now s\<rparr>
      in if length intersects > 0
         then (let intersectionPoint = intersects ! 0
               in s1\<lparr>waveUniforms := (waveUniforms s1)
                        \<lparr>u_clickPosition := intersectionPoint, u_clickTime := clickTime s1\<rparr>,
                     elasticity := 1\<rparr>)
         else s1\<lparr>waveUniforms := (waveUniforms s1)\<lparr>u_clickTime := - 1\<rparr>\<rparr>)"

subsection \<open>\<^verbatim>\<open>onKeyPress\<close>\<close>

text \<open>\<open>key\<close> is \<^verbatim>\<open>event.key\<close>.\<close>

definition onKeyPress :: "string \<Rightarrow> app \<Rightarrow> app" where
  "onKeyPress key s =
     (if key = ''m'' \<or> key = ''M''
      then (let i = (activeMaterialIndex s + 1) mod length materials
            in s\<lparr>activeMaterialIndex := i,
                 meshMaterial := material_at i,
                 consoleLog := consoleLog s @ [i]\<rparr>)
      else s)"

subsection \<open>The constructor\<close>

text \<open>
  \<open>innerWidth\<close> and \<open>innerHeight\<close> are the window's size, \<open>now0\<close> is the clock reading
  stored in \<^verbatim>\<open>startTime\<close>, and \<open>now1\<close> the one that the call of \<^verbatim>\<open>animate\<close> at the end
  of the constructor reads. A camera is created at the origin and moved to \<open>z = 9\<close>. The
  field \<^verbatim>\<open>clickPosition\<close> is built from two arguments; the library's \<^verbatim>\<open>Vector3\<close> takes 0
  for a missing one.
\<close>

definition constructor :: "real \<Rightarrow> real \<Rightarrow> int \<Rightarrow> int \<Rightarrow> app" where
  "constructor innerWidth innerHeight now0 now1 =
     (let cam = \<lparr>fov = 75, aspect = js_div innerWidth innerHeight, near = 0.1, far = 1000,
                 position = Vector3 0 0 9\<rparr>;
          resolution = Vector2 innerWidth innerHeight;
          waveMaterial =
            \<lparr>u_time = 0, u_resolution = resolution,
             u_lightDirection = normalize (Vector3 1 1 1),
             u_lightColor = Color 0xffffff, u_objectColor = Color 0xff00ff,
             cameraPosition = position cam,
             u_elasticity = 0, u_clickTime = - 1, u_clickPosition = Vector3 (- 1) (- 1) (- 1),
             u_shininess = 32, u_transparency = 0.6, u_jiggleIntensity = 0.05\<rparr>;
          creativeMaterial =
            \<lparr>u_time = 0, u_resolution = resolution,
             u_lightDirection = normalize (Vector3 1 1 1),
             u_lightColor = Color 0xffffff, u_objectColor = Color 0xff00ff,
             cameraPosition = position cam,
             u_inflateAmount = 0.2\<rparr>
      in animate now1
           \<lparr>camera = cam, rendererSize = (innerWidth, innerHeight),
            waveUniforms = waveMaterial, creativeUniforms = creativeMaterial,
            meshMaterial = material_at 0, activeMaterialIndex = 0,
            startTime = now0, clickTime = - 1, clickPosition = Vector3 (- 1) (- 1) 0,
            elasticity = 0, consoleLog = []\<rparr>)"

subsection \<open>Runs\<close>

text \<open>
  The events that the constructor registers a handler for, each with what the handler
  reads, and the frame callback. A run handles a list of events one after the other.
\<close>

datatype event =
    Frame int
  | Resize real real
  | Click int "vector3 list"
  | KeyDown string

fun dispatch :: "event \<Rightarrow> app \<Rightarrow> app" where
  "dispatch (Frame now) s = animate now s"
| "dispatch (Resize width height) s = onWindowResize width height s"
| "dispatch (Click now intersects) s = onDocumentClick now intersects s"
| "dispatch (KeyDown key) s = onKeyPress key s"

definition run :: "event list \<Rightarrow> app \<Rightarrow> app" where
  "run evs s = fold dispatch evs s"

text \<open>Frames only, one per clock reading of the list.\<close>

definition ticks :: "int list \<Rightarrow> app \<Rightarrow> app" where
  "ticks nows s = fold animate nows s"

subsection \<open>The decay rule in the words of the specification\<close>

text \<open>
  If elasticity \<open>> 0.001\<close>, elasticity \<open>\<leftarrow>\<close> elasticity \<open>- 0.02 \<times>\<close> elasticity; else
  elasticity \<open>\<leftarrow> 0\<close> exactly.
\<close>

definition spec_decay :: "real \<Rightarrow> real" where
  "spec_decay e = (if e > 1 / 1000 then e - (2 / 100) * e else 0)"

subsection \<open>The invariant of the state\<close>

text \<open>
  What every handler keeps: the elasticity is not negative, and the active material index
  is an index of \<^verbatim>\<open>this.materials\<close>.
\<close>

definition app_inv :: "app \<Rightarrow> bool" where
  "app_inv s \<longleftrightarrow> 0 \<le> elasticity s \<and> activeMaterialIndex s < length materials"

section \<open>What one handler does\<close>

lemma elasticity_fold_update_material:
  "elasticity (fold (update_material t) materials s) = elasticity s"
  by (simp add: materials_def)

lemma elasticity_animate: "elasticity (animate now s) = spec_decay (elasticity s)"
  by (simp add: animate_def Let_def spec_decay_def elasticity_fold_update_material)

lemma animate_fields:
  "activeMaterialIndex (animate now s) = activeMaterialIndex s"
  "clickPosition (animate now s) = clickPosition s"
  "clickTime (animate now s) = clickTime s"
  "startTime (animate now s) = startTime s"
  "meshMaterial (animate now s) = meshMaterial s"
  by (simp_all add: animate_def Let_def materials_def)

text \<open>\<^verbatim>\<open>this.materials[0]\<close> is the wave material, \<^verbatim>\<open>this.materials[1]\<close> the creative one.\<close>

lemma material_at_simps:
  "material_at 0 = Some WaveMaterial"
  "material_at 1 = Some CreativeMaterial"
  "2 \<le> i \<Longrightarrow> material_at i = None"
  by (simp_all add: material_at_def materials_def)

lemma elasticity_click_hit: "elasticity (onDocumentClick now (p # rest) s) = 1"
  by (simp add: onDocumentClick_def Let_def)

lemma constructor_fields:
  "elasticity (constructor w h t0 t1) = 0"
  "activeMaterialIndex (constructor w h t0 t1) = 0"
  "meshMaterial (constructor w h t0 t1) = Some WaveMaterial"
  "clickPosition (constructor w h t0 t1) = Vector3 (- 1) (- 1) 0"
  "clickTime (constructor w h t0 t1) = - 1"
  "startTime (constructor w h t0 t1) = t0"
  by (simp_all add: constructor_def animate_def Let_def materials_def material_at_def)

lemma constructor_uniforms:
  "u_clickPosition (waveUniforms (constructor w h t0 t1)) = Vector3 (- 1) (- 1) (- 1)"
  "u_clickTime (waveUniforms (constructor w h t0 t1)) = - 1"
  "u_elasticity (waveUniforms (constructor w h t0 t1)) = 0"
  "u_time (waveUniforms (constructor w h t0 t1)) = real_of_int (t1 - t0) / 1000"
  "u_time (creativeUniforms (constructor w h t0 t1)) = real_of_int (t1 - t0) / 1000"
  by (simp_all add: constructor_def animate_def Let_def materials_def frame_uniforms_def elapsed_def)

lemma clickPosition_dispatch: "clickPosition (dispatch ev s) = clickPosition s"
  by (cases ev)
    (simp_all add: animate_fields onWindowResize_def onDocumentClick_def onKeyPress_def Let_def)

section \<open>The decay of the elasticity\<close>

text \<open>
  A frame replaces the elasticity \<open>e\<close> by \<open>spec_decay e\<close>, so a sequence of frames
  iterates \<open>spec_decay\<close>.
\<close>

lemma spec_decay_nonneg: "0 \<le> e \<Longrightarrow> 0 \<le> spec_decay e"
  by (simp add: spec_decay_def)

lemma spec_decay_le: "0 \<le> e \<Longrightarrow> spec_decay e \<le> e"
  by (simp add: spec_decay_def)

lemma spec_decay_scale: "0 \<le> e \<Longrightarrow> spec_decay e \<le> (49 / 50) * e"
  by (simp add: spec_decay_def)

lemma spec_decay_small: "e \<le> 1 / 1000 \<Longrightarrow> spec_decay e = 0"
  by (simp add: spec_decay_def)

lemma spec_decay_big: "1 / 1000 < e \<Longrightarrow> spec_decay e = (49 / 50) * e"
  by (simp add: spec_decay_def)

lemma elasticity_ticks: "elasticity (ticks nows s) = (spec_decay ^^ length nows) (elasticity s)"
proof (induction nows arbitrary: s)
  case Nil
  then show ?case by (simp add: ticks_def)
next
  case (Cons now nows)
  have "elasticity (ticks (now # nows) s) = elasticity (ticks nows (animate now s))"
    by (simp add: ticks_def)
  also have "\<dots> = (spec_decay ^^ length nows) (spec_decay (elasticity s))"
    by (simp add: Cons.IH elasticity_animate)
  finally show ?case by (simp add: funpow_swap1)
qed

lemma ticks_run: "ticks nows s = run (map Frame nows) s"
  by (induction nows arbitrary: s) (simp_all add: ticks_def run_def)

lemma funpow_decay_bounds:
  "0 \<le> e \<Longrightarrow> 0 \<le> (spec_decay ^^ n) e \<and> (spec_decay ^^ n) e \<le> (49 / 50) ^ n * e"
proof (induction n)
  case 0
  then show ?case by simp
next
  case (Suc n)
  then have ih: "0 \<le> (spec_decay ^^ n) e" "(spec_decay ^^ n) e \<le> (49 / 50) ^ n * e"
    by simp_all
  have "spec_decay ((spec_decay ^^ n) e) \<le> (49 / 50) * (spec_decay ^^ n) e"
    using ih(1) by (rule spec_decay_scale)
  also have "\<dots> \<le> (49 / 50) * ((49 / 50) ^ n * e)"
    using ih(2) by simp
  finally show ?case using ih(1) by (simp add: spec_decay_nonneg)
qed

lemma funpow_decay_zero: "(spec_decay ^^ n) 0 = 0"
  by (induction n) (simp_all add: spec_decay_def)

lemma funpow_decay_exact:
  "1 / 1000 < (49 / 50) ^ n * e \<Longrightarrow> (spec_decay ^^ Suc n) e = (49 / 50) ^ Suc n * e"
proof (induction n)
  case 0
  then show ?case by (simp add: spec_decay_def)
next
  case (Suc n)
  have pos: "0 < e"
  proof (rule ccontr)
    assume "\<not> 0 < e"
    then have "e \<le> 0" by simp
    moreover have "0 \<le> (49 / 50 :: real) ^ Suc n" by simp
    ultimately have "(49 / 50) ^ Suc n * e \<le> 0" by (rule mult_nonneg_nonpos [rotated])
    with Suc.prems show False by linarith
  qed
  have "(49 / 50 :: real) ^ Suc n * e \<le> (49 / 50) ^ n * e"
    using pos by simp
  with Suc.prems have "1 / 1000 < (49 / 50) ^ n * e" by linarith
  then have ih: "(spec_decay ^^ Suc n) e = (49 / 50) ^ Suc n * e" by (rule Suc.IH)
  have "(spec_decay ^^ Suc (Suc n)) e = spec_decay ((spec_decay ^^ Suc n) e)"
    by (simp only: funpow.simps o_apply)
  also have "\<dots> = spec_decay ((49 / 50) ^ Suc n * e)"
    by (simp only: ih)
  also have "\<dots> = (49 / 50) * ((49 / 50) ^ Suc n * e)"
    using Suc.prems by (rule spec_decay_big)
  also have "\<dots> = (49 / 50) ^ Suc (Suc n) * e" by simp
  finally show ?case .
qed

lemma funpow_decay_reaches_zero:
  assumes "0 \<le> e"
  shows "\<exists>n. \<forall>m. (spec_decay ^^ (n + m)) e = 0"
proof (cases "e = 0")
  case True
  then show ?thesis by (simp add: funpow_decay_zero)
next
  case False
  with assms have pos: "0 < e" by simp
  then have "0 < (1 / 1000) / e" by simp
  then obtain k where k: "(49 / 50 :: real) ^ k < (1 / 1000) / e"
    using real_arch_pow_inv [of "(1 / 1000) / e" "49 / 50"] by auto
  then have "(49 / 50) ^ k * e < 1 / 1000"
    using pos by (simp add: field_simps)
  with funpow_decay_bounds [OF assms, of k] have "(spec_decay ^^ k) e \<le> 1 / 1000" by simp
  then have z: "(spec_decay ^^ Suc k) e = 0" by (simp add: spec_decay_small)
  have "(spec_decay ^^ (Suc k + m)) e = 0" for m
  proof -
    have "(spec_decay ^^ (Suc k + m)) e = (spec_decay ^^ m) ((spec_decay ^^ Suc k) e)"
      by (simp only: add.commute [of "Suc k" m] funpow_add o_apply)
    then show ?thesis by (simp only: z funpow_decay_zero)
  qed
  then show ?thesis by blast
qed

subsection \<open>Powers of 49/50 around the threshold\<close>

text \<open>
  Starting from 1, the elasticity after \<open>n\<close> frames is \<open>(49/50) ^ n\<close> as long as the
  power before it is above \<open>1/1000\<close>. The power 341 is the last one above, 342 is below.
  Both bounds are reached through the powers 5, 21 and 85, each four times the one before
  plus one, with nine decimals.
\<close>

lemma power_chain_lower:
  fixes a l l' :: real
  assumes "l \<le> a ^ n" and "0 \<le> a" and "0 \<le> l" and "l' \<le> a * l ^ 4" and "m = Suc (4 * n)"
  shows "l' \<le> a ^ m"
proof -
  have "l ^ 4 \<le> (a ^ n) ^ 4" using assms(3,1) by (rule power_mono [rotated])
  also have "\<dots> = a ^ (4 * n)" by (simp add: power_mult [symmetric] mult.commute)
  finally have "a * l ^ 4 \<le> a * a ^ (4 * n)" using assms(2) by (rule mult_left_mono)
  with assms(4) have "l' \<le> a * a ^ (4 * n)" by (rule order_trans)
  then show ?thesis by (simp only: assms(5) power_Suc)
qed

lemma power_chain_upper:
  fixes a u u' :: real
  assumes "a ^ n \<le> u" and "0 \<le> a" and "a * u ^ 4 \<le> u'" and "m = Suc (4 * n)"
  shows "a ^ m \<le> u'"
proof -
  have "0 \<le> a ^ n" using assms(2) by simp
  with assms(1) have "(a ^ n) ^ 4 \<le> u ^ 4" by (rule power_mono)
  moreover have "(a ^ n) ^ 4 = a ^ (4 * n)" by (simp add: power_mult [symmetric] mult.commute)
  ultimately have "a ^ (4 * n) \<le> u ^ 4" by simp
  then have "a * a ^ (4 * n) \<le> a * u ^ 4" using assms(2) by (rule mult_left_mono)
  then have "a * a ^ (4 * n) \<le> u'" using assms(3) by (rule order_trans)
  then show ?thesis by (simp only: assms(4) power_Suc)
qed

lemma pow_341_lower: "(1018806 / 1000000000 :: real) \<le> (49 / 50) ^ 341"
proof -
  have l5: "(903920796 / 1000000000 :: real) \<le> (49 / 50) ^ 5"
    by (simp add: power_divide)
  have l21: "(654255810 / 1000000000 :: real) \<le> (49 / 50) ^ 21"
    by (rule power_chain_lower [OF l5]) (simp_all add: power_divide)
  have l85: "(179562824 / 1000000000 :: real) \<le> (49 / 50) ^ 85"
    by (rule power_chain_lower [OF l21]) (simp_all add: power_divide)
  show ?thesis
    by (rule power_chain_lower [OF l85]) (simp_all add: power_divide)
qed

lemma pow_341_upper: "(49 / 50 :: real) ^ 341 \<le> 1018807 / 1000000000"
proof -
  have u5: "(49 / 50 :: real) ^ 5 \<le> 903920797 / 1000000000"
    by (simp add: power_divide)
  have u21: "(49 / 50 :: real) ^ 21 \<le> 654255813 / 1000000000"
    by (rule power_chain_upper [OF u5]) (simp_all add: power_divide)
  have u85: "(49 / 50 :: real) ^ 85 \<le> 179562828 / 1000000000"
    by (rule power_chain_upper [OF u21]) (simp_all add: power_divide)
  show ?thesis
    by (rule power_chain_upper [OF u85]) (simp_all add: power_divide)
qed

lemma pow_341_above: "(1 / 1000 :: real) < (49 / 50) ^ 341"
proof -
  have "(1 / 1000 :: real) < 1018806 / 1000000000" by simp
  also note pow_341_lower
  finally show ?thesis .
qed

lemma pow_342_below: "(49 / 50 :: real) ^ 342 \<le> 1 / 1000"
proof -
  have "(49 / 50 :: real) ^ 342 = (49 / 50) * (49 / 50) ^ 341"
    by (simp only: power_Suc [symmetric]) simp
  also have "\<dots> \<le> (49 / 50) * (1018807 / 1000000000)"
    using pow_341_upper by (intro mult_left_mono) simp_all
  also have "\<dots> \<le> 1 / 1000" by simp
  finally show ?thesis .
qed


lemma funpow_decay_from_one:
  assumes "n \<le> 341"
  shows "(spec_decay ^^ Suc n) 1 = (49 / 50) ^ Suc n"
proof -
  have "(1 / 1000 :: real) < (49 / 50) ^ 341" by (rule pow_341_above)
  also have "(49 / 50 :: real) ^ 341 \<le> (49 / 50) ^ n"
    using assms by (intro power_decreasing) simp_all
  finally have "1 / 1000 < (49 / 50 :: real) ^ n * 1" by (simp only: mult_1_right)
  then have "(spec_decay ^^ Suc n) 1 = (49 / 50) ^ Suc n * 1" by (rule funpow_decay_exact)
  then show ?thesis by (simp only: mult_1_right)
qed

lemma funpow_decay_343: "(spec_decay ^^ (m + Suc 342)) 1 = 0"
proof -
  have s342: "Suc 341 = 342" by simp
  have "(spec_decay ^^ Suc 341) 1 = (49 / 50) ^ Suc 341" by (rule funpow_decay_from_one) simp
  then have "(spec_decay ^^ 342) 1 = (49 / 50) ^ 342" by (simp only: s342)
  with pow_342_below have "(spec_decay ^^ 342) 1 \<le> 1 / 1000" by (simp only:)
  then have z: "spec_decay ((spec_decay ^^ 342) 1) = 0" by (rule spec_decay_small)
  have "(spec_decay ^^ (m + Suc 342)) 1 = (spec_decay ^^ m) (spec_decay ((spec_decay ^^ 342) 1))"
    by (simp only: funpow_add funpow.simps o_apply)
  also have "\<dots> = 0" by (simp only: z funpow_decay_zero)
  finally show ?thesis .
qed

lemma ticks_after_click:
  assumes "elasticity s = 1"
  shows "length nows < 343 \<Longrightarrow> elasticity (ticks nows s) = (49 / 50) ^ length nows"
    and "343 \<le> length nows \<Longrightarrow> elasticity (ticks nows s) = 0"
proof -
  have e: "elasticity (ticks nows s) = (spec_decay ^^ length nows) 1"
    by (simp only: elasticity_ticks assms)
  show "elasticity (ticks nows s) = (49 / 50) ^ length nows" if "length nows < 343"
  proof (cases "length nows")
    case 0
    show ?thesis by (simp only: e 0 funpow.simps id_apply power.simps)
  next
    case (Suc n)
    with that have "n \<le> 341" by simp
    then have "(spec_decay ^^ Suc n) 1 = (49 / 50) ^ Suc n" by (rule funpow_decay_from_one)
    then show ?thesis by (simp only: e Suc)
  qed
  show "elasticity (ticks nows s) = 0" if "343 \<le> length nows"
  proof -
    from that have "length nows = (length nows - 343) + Suc 342" by simp
    then have "(spec_decay ^^ length nows) 1 = (spec_decay ^^ ((length nows - 343) + Suc 342)) 1"
      by (rule arg_cong)
    then show ?thesis by (simp only: e funpow_decay_343)
  qed
qed

lemma length_upto_50: "length [2001..2050::int] = 50"
  by (simp only: length_upto)

lemma length_upto_343: "length [2001..2343::int] = 343"
  by (simp only: length_upto)

section \<open>Runs\<close>

lemma clickPosition_run: "clickPosition (run evs s) = clickPosition s"
proof (induction evs arbitrary: s)
  case Nil
  show ?case by (simp add: run_def)
next
  case (Cons ev evs)
  have "run (ev # evs) s = run evs (dispatch ev s)" by (simp add: run_def)
  then show ?case by (simp add: Cons.IH clickPosition_dispatch)
qed

lemma app_inv_dispatch: "app_inv s \<Longrightarrow> app_inv (dispatch ev s)"
proof (cases ev)
  case (Frame now)
  assume "app_inv s"
  then show ?thesis
    by (simp add: Frame app_inv_def animate_fields elasticity_animate spec_decay_nonneg)
next
  case (Resize width height)
  assume "app_inv s"
  then show ?thesis by (simp add: Resize app_inv_def onWindowResize_def)
next
  case (Click now intersects)
  assume "app_inv s"
  then show ?thesis by (simp add: Click app_inv_def onDocumentClick_def Let_def)
next
  case (KeyDown key)
  assume "app_inv s"
  then show ?thesis by (simp add: KeyDown app_inv_def onKeyPress_def Let_def materials_def)
qed

lemma app_inv_run: "app_inv s \<Longrightarrow> app_inv (run evs s)"
proof (induction evs arbitrary: s)
  case Nil
  then show ?case by (simp add: run_def)
next
  case (Cons ev evs)
  have "run (ev # evs) s = run evs (dispatch ev s)" by (simp add: run_def)
  moreover have "app_inv (dispatch ev s)" using Cons.prems by (rule app_inv_dispatch)
  ultimately show ?case by (simp add: Cons.IH)
qed

lemma app_inv_constructor: "app_inv (constructor w h t0 t1)"
  by (simp add: app_inv_def constructor_fields materials_def)

section \<open>The claims\<close>

subsection \<open>C1: a click, then frames\<close>

text \<open>
  C1, as amended. A click at elapsed time 2 that hits the surface at \<open>(1, 2, 3)\<close> sets
  the elasticity to 1, the wave material's click-position uniform to \<open>(1, 2, 3)\<close> and its
  click-time uniform to 2. After \<open>n\<close> frames with \<open>n < 343\<close> the elasticity is
  \<open>(49/50) ^ n\<close>, which is positive: after 50 frames it is \<open>(49/50) ^ 50\<close>, about
  0.364. From the 343rd frame on it is 0.
\<close>

theorem C1_click_then_ticks:
  assumes "elapsed now s = 2"
    and "s' = onDocumentClick now (Vector3 1 2 3 # rest) s"
  shows "elasticity s' = 1 \<and>
    u_clickPosition (waveUniforms s') = Vector3 1 2 3 \<and>
    u_clickTime (waveUniforms s') = 2 \<and>
    (length nows < 343 \<longrightarrow>
       elasticity (ticks nows s') = (49 / 50) ^ length nows \<and> 0 < elasticity (ticks nows s')) \<and>
    (343 \<le> length nows \<longrightarrow> elasticity (ticks nows s') = 0)"
proof -
  have e: "elasticity s' = 1" by (simp add: assms(2) elasticity_click_hit)
  have "u_clickPosition (waveUniforms s') = Vector3 1 2 3"
    by (simp add: assms(2) onDocumentClick_def Let_def)
  moreover have "u_clickTime (waveUniforms s') = 2"
    using assms(1) by (simp add: assms(2) onDocumentClick_def Let_def)
  moreover have "elasticity (ticks nows s') = (49 / 50) ^ length nows \<and> 0 < elasticity (ticks nows s')"
    if "length nows < 343"
    using ticks_after_click(1) [OF e that] by simp
  moreover have "elasticity (ticks nows s') = 0" if "343 \<le> length nows"
    using e that by (rule ticks_after_click(2))
  ultimately show ?thesis using e by blast
qed

text \<open>
  The amended claim on a run: the application is constructed at clock reading 0, the click
  comes at 2000 ms, and the frames follow one millisecond apart (the elasticity does not
  depend on the clock).
\<close>

theorem C1_click_then_ticks_witness:
  "elapsed 2000 (constructor 800 600 0 16) = 2 \<and>
   elasticity (onDocumentClick 2000 [Vector3 1 2 3] (constructor 800 600 0 16)) = 1 \<and>
   elasticity (ticks [2001..2050] (onDocumentClick 2000 [Vector3 1 2 3] (constructor 800 600 0 16)))
     = (49 / 50) ^ 50 \<and>
   elasticity (ticks [2001..2343] (onDocumentClick 2000 [Vector3 1 2 3] (constructor 800 600 0 16)))
     = 0"
proof -
  have h: "elapsed 2000 (constructor 800 600 0 16) = 2"
    by (simp add: elapsed_def constructor_fields)
  have "(50 :: nat) < 343" and "(343 :: nat) \<le> 343" by simp_all
  with h C1_click_then_ticks [OF h refl, of "[]" "[2001..2050]", unfolded length_upto_50]
    C1_click_then_ticks [OF h refl, of "[]" "[2001..2343]", unfolded length_upto_343]
  show ?thesis by blast
qed

text \<open>
  The claim as it was stated fails on the same run: the click leaves the state that the
  claim describes, and after 50 frames the elasticity is not 0.
\<close>

theorem C1_counterexample:
  "elasticity (onDocumentClick 2000 [Vector3 1 2 3] (constructor 800 600 0 16)) = 1 \<and>
   u_clickPosition (waveUniforms (onDocumentClick 2000 [Vector3 1 2 3] (constructor 800 600 0 16)))
     = Vector3 1 2 3 \<and>
   u_clickTime (waveUniforms (onDocumentClick 2000 [Vector3 1 2 3] (constructor 800 600 0 16))) = 2 \<and>
   elasticity (ticks [2001..2050] (onDocumentClick 2000 [Vector3 1 2 3] (constructor 800 600 0 16)))
     \<noteq> 0"
proof -
  let ?s = "onDocumentClick 2000 [Vector3 1 2 3] (constructor 800 600 0 16)"
  have e: "elasticity ?s = 1" by (rule elasticity_click_hit)
  have "length [2001..2050::int] < 343" by (simp only: length_upto_50)
  with e have "elasticity (ticks [2001..2050] ?s) = (49 / 50) ^ length [2001..2050::int]"
    by (rule ticks_after_click(1))
  then have eq: "elasticity (ticks [2001..2050] ?s) = (49 / 50) ^ 50"
    by (simp only: length_upto_50)
  have ne: "(49 / 50 :: real) ^ 50 \<noteq> 0" by simp
  have "elasticity (ticks [2001..2050] ?s) \<noteq> 0"
    unfolding eq by (rule ne)
  moreover have "u_clickPosition (waveUniforms ?s) = Vector3 1 2 3"
    by (simp add: onDocumentClick_def Let_def)
  moreover have "u_clickTime (waveUniforms ?s) = 2"
    by (simp add: onDocumentClick_def Let_def elapsed_def constructor_fields)
  ultimately show ?thesis using e by blast
qed

subsection \<open>C2: the elasticity falls to zero\<close>

lemma ticks_decay:
  assumes "0 \<le> elasticity s"
  shows "elasticity (ticks (nows @ [now]) s) \<le> elasticity (ticks nows s)"
    and "\<exists>n. \<forall>nows. n \<le> length nows \<longrightarrow> elasticity (ticks nows s) = 0"
proof -
  have "0 \<le> (spec_decay ^^ length nows) (elasticity s)"
    using funpow_decay_bounds [OF assms] by simp
  then have "spec_decay ((spec_decay ^^ length nows) (elasticity s))
    \<le> (spec_decay ^^ length nows) (elasticity s)"
    by (rule spec_decay_le)
  then show "elasticity (ticks (nows @ [now]) s) \<le> elasticity (ticks nows s)"
    by (simp add: elasticity_ticks)
  from funpow_decay_reaches_zero [OF assms]
  obtain n where n: "\<And>m. (spec_decay ^^ (n + m)) (elasticity s) = 0" by blast
  have "elasticity (ticks nows s) = 0" if "n \<le> length nows" for nows
  proof -
    from that have "length nows = n + (length nows - n)" by simp
    then show ?thesis using n [of "length nows - n"] by (simp add: elasticity_ticks)
  qed
  then show "\<exists>n. \<forall>nows. n \<le> length nows \<longrightarrow> elasticity (ticks nows s) = 0" by blast
qed

lemma elasticity_run_nonneg: "0 \<le> elasticity (run evs (constructor w h t0 t1))"
  using app_inv_run [OF app_inv_constructor] by (simp add: app_inv_def)

text \<open>
  C2. From a state whose elasticity is not negative, the elasticity after one more frame
  is never above the elasticity before it, and there is a number of frames from which on
  the elasticity is exactly 0. Every state of a run, after whatever events, is such a
  state, so both hold there with no condition. (A negative elasticity, which no run
  produces, would be raised to 0 by the first frame.)
\<close>

theorem C2_elasticity_decays_to_zero:
  "(0 \<le> elasticity s \<longrightarrow>
      (\<forall>nows now. elasticity (ticks (nows @ [now]) s) \<le> elasticity (ticks nows s)) \<and>
      (\<exists>n. \<forall>nows. n \<le> length nows \<longrightarrow> elasticity (ticks nows s) = 0)) \<and>
   (\<forall>nows now. elasticity (ticks (nows @ [now]) (run evs (constructor w h t0 t1)))
      \<le> elasticity (ticks nows (run evs (constructor w h t0 t1)))) \<and>
   (\<exists>n. \<forall>nows. n \<le> length nows \<longrightarrow>
      elasticity (ticks nows (run evs (constructor w h t0 t1))) = 0)"
proof -
  note at_state = ticks_decay [of s]
  note on_run = ticks_decay [OF elasticity_run_nonneg [of evs w h t0 t1]]
  show ?thesis using at_state on_run by blast
qed

text \<open>
  After a click that hits, the elasticity is 1: the frame at 2033 ms does not raise what
  the frame at 2016 ms left, and some sequence of frames brings the elasticity to 0.
\<close>

theorem C2_elasticity_decays_to_zero_witness:
  "0 \<le> elasticity (onDocumentClick 2000 [Vector3 1 2 3] (constructor 800 600 0 16)) \<and>
   elasticity (ticks ([2016] @ [2033]) (onDocumentClick 2000 [Vector3 1 2 3] (constructor 800 600 0 16)))
     \<le> elasticity (ticks [2016] (onDocumentClick 2000 [Vector3 1 2 3] (constructor 800 600 0 16))) \<and>
   (\<exists>nows. elasticity (ticks nows (onDocumentClick 2000 [Vector3 1 2 3] (constructor 800 600 0 16))) = 0)"
proof -
  have h: "0 \<le> elasticity (onDocumentClick 2000 [Vector3 1 2 3] (constructor 800 600 0 16))"
    by (simp add: elasticity_click_hit)
  with C2_elasticity_decays_to_zero
    [of "onDocumentClick 2000 [Vector3 1 2 3] (constructor 800 600 0 16)" "[]" 800 600 0 16]
  obtain n where mono: "\<And>nows now.
        elasticity (ticks (nows @ [now]) (onDocumentClick 2000 [Vector3 1 2 3] (constructor 800 600 0 16)))
        \<le> elasticity (ticks nows (onDocumentClick 2000 [Vector3 1 2 3] (constructor 800 600 0 16)))"
    and zero: "\<And>nows. n \<le> length nows \<Longrightarrow>
        elasticity (ticks nows (onDocumentClick 2000 [Vector3 1 2 3] (constructor 800 600 0 16))) = 0"
    by blast
  have "elasticity (ticks (replicate n 0) (onDocumentClick 2000 [Vector3 1 2 3] (constructor 800 600 0 16))) = 0"
    by (rule zero) simp
  then show ?thesis using h mono [of "[2016]" 2033] by blast
qed

subsection \<open>C3: the decay rule\<close>

text \<open>
  C3. Each frame applies the decay rule of the specification to the elasticity: above
  0.001 it loses 0.02 times itself, otherwise it becomes 0. The wave material's
  elasticity uniform receives the new value.
\<close>

theorem C3_decay_rule:
  "elasticity (animate now s) = spec_decay (elasticity s) \<and>
   elasticity (animate now s) =
     (if elasticity s > 0.001 then elasticity s - 0.02 * elasticity s else 0) \<and>
   u_elasticity (waveUniforms (animate now s)) = elasticity (animate now s)"
  by (simp add: animate_def Let_def spec_decay_def materials_def)

theorem C3_decay_rule_witness:
  "elasticity (animate 2016 (onDocumentClick 2000 [Vector3 1 2 3] (constructor 800 600 0 16)))
     = 49 / 50 \<and>
   u_elasticity (waveUniforms
     (animate 2016 (onDocumentClick 2000 [Vector3 1 2 3] (constructor 800 600 0 16)))) = 49 / 50 \<and>
   elasticity (animate 500 (constructor 800 600 0 16)) = 0"
  using C3_decay_rule [of 2016 "onDocumentClick 2000 [Vector3 1 2 3] (constructor 800 600 0 16)"]
    C3_decay_rule [of 500 "constructor 800 600 0 16"]
  by (simp add: elasticity_click_hit constructor_fields spec_decay_def)

subsection \<open>C4 and C5: what a click writes\<close>

text \<open>
  C4. After a click whose ray hits nothing, the wave material's click-time uniform is
  \<open>-1\<close>, and the elasticity and the wave material's click-position uniform are what they
  were before the click.
\<close>

theorem C4_click_miss:
  "u_clickTime (waveUniforms (onDocumentClick now [] s)) = - 1 \<and>
   elasticity (onDocumentClick now [] s) = elasticity s \<and>
   u_clickPosition (waveUniforms (onDocumentClick now [] s)) = u_clickPosition (waveUniforms s)"
  by (simp add: onDocumentClick_def Let_def)

text \<open>A miss at 2000 ms after a hit at 1000 ms: the hit's elasticity and point stay.\<close>

theorem C4_click_miss_witness:
  "u_clickTime (waveUniforms (onDocumentClick 2000 []
     (onDocumentClick 1000 [Vector3 1 2 3] (constructor 800 600 0 16)))) = - 1 \<and>
   elasticity (onDocumentClick 2000 []
     (onDocumentClick 1000 [Vector3 1 2 3] (constructor 800 600 0 16))) = 1 \<and>
   u_clickPosition (waveUniforms (onDocumentClick 2000 []
     (onDocumentClick 1000 [Vector3 1 2 3] (constructor 800 600 0 16)))) = Vector3 1 2 3"
  using C4_click_miss [of 2000 "onDocumentClick 1000 [Vector3 1 2 3] (constructor 800 600 0 16)"]
  by (simp add: onDocumentClick_def Let_def)

text \<open>
  C5. After a click whose ray hits a surface, the elasticity is 1, the wave material's
  click-time uniform is the time since the start at the click, that is the clock reading
  of the click minus \<open>startTime\<close>, in seconds, and its click-position uniform is the
  first intersection point.
\<close>

theorem C5_click_hit:
  "elasticity (onDocumentClick now (p # rest) s) = 1 \<and>
   u_clickTime (waveUniforms (onDocumentClick now (p # rest) s))
     = real_of_int (now - startTime s) / 1000 \<and>
   u_clickPosition (waveUniforms (onDocumentClick now (p # rest) s)) = p"
  by (simp add: onDocumentClick_def Let_def elapsed_def)

text \<open>
  The application starts at clock reading 5000 and the click comes at 7000: the uniform
  holds 2, the seconds since the start, and not 7.
\<close>

theorem C5_click_hit_witness:
  "elasticity (onDocumentClick 7000 [Vector3 1 2 3] (constructor 800 600 5000 5016)) = 1 \<and>
   startTime (constructor 800 600 5000 5016) = 5000 \<and>
   u_clickTime (waveUniforms (onDocumentClick 7000 [Vector3 1 2 3] (constructor 800 600 5000 5016)))
     = 2 \<and>
   u_clickPosition (waveUniforms (onDocumentClick 7000 [Vector3 1 2 3] (constructor 800 600 5000 5016)))
     = Vector3 1 2 3"
  using C5_click_hit [of 7000 "Vector3 1 2 3" "[]" "constructor 800 600 5000 5016"]
  by (simp add: constructor_fields)

subsection \<open>C6: the time uniform\<close>

text \<open>
  C6. After a frame, the time uniform of the wave material and that of the creative
  material both hold the elapsed time of the frame, \<open>(now - startTime) / 1000\<close>,
  whatever its value.
\<close>

theorem C6_time_uniform:
  "u_time (waveUniforms (animate now s)) = elapsed now s \<and>
   u_time (creativeUniforms (animate now s)) = elapsed now s \<and>
   elapsed now s = real_of_int (now - startTime s) / 1000"
  by (simp add: animate_def Let_def materials_def frame_uniforms_def elapsed_def)

text \<open>A frame half a second after the start.\<close>

theorem C6_time_uniform_witness:
  "u_time (waveUniforms (animate 500 (constructor 800 600 0 16))) = 1 / 2 \<and>
   u_time (creativeUniforms (animate 500 (constructor 800 600 0 16))) = 1 / 2"
  using C6_time_uniform [of 500 "constructor 800 600 0 16"]
  by (simp add: constructor_fields)

subsection \<open>C7: the key that changes the material\<close>

text \<open>
  C7. The key \<open>m\<close> or \<open>M\<close> moves the active material index to the next one modulo 2 and
  gives the mesh the material at the new index; any other key leaves the state as it is.
\<close>

theorem C7_key_press:
  "(key = ''m'' \<or> key = ''M'' \<longrightarrow>
      activeMaterialIndex (onKeyPress key s) = (activeMaterialIndex s + 1) mod 2 \<and>
      meshMaterial (onKeyPress key s) = Some (materials ! activeMaterialIndex (onKeyPress key s))) \<and>
   (key \<noteq> ''m'' \<and> key \<noteq> ''M'' \<longrightarrow> onKeyPress key s = s)"
  by (simp add: onKeyPress_def Let_def material_at_def materials_def numeral_2_eq_2)

theorem C7_key_press_witness:
  "activeMaterialIndex (onKeyPress ''m'' (constructor 800 600 0 16)) = 1 \<and>
   meshMaterial (onKeyPress ''M'' (constructor 800 600 0 16)) = Some CreativeMaterial \<and>
   activeMaterialIndex (onKeyPress ''m'' (onKeyPress ''m'' (constructor 800 600 0 16))) = 0 \<and>
   onKeyPress ''Enter'' (constructor 800 600 0 16) = constructor 800 600 0 16"
  using C7_key_press [of "''m''" "constructor 800 600 0 16"]
    C7_key_press [of "''M''" "constructor 800 600 0 16"]
    C7_key_press [of "''m''" "onKeyPress ''m'' (constructor 800 600 0 16)"]
    C7_key_press [of "''Enter''" "constructor 800 600 0 16"]
  by (simp add: constructor_fields materials_def)

subsection \<open>C8: the invariant on every run\<close>

text \<open>
  C8. After any sequence of frames, clicks, key presses and resizes from the state that
  the constructor leaves, the elasticity is at least 0 and the active material index is
  an index of the two-element array of materials, 0 or 1.
\<close>

theorem C8_invariant:
  "0 \<le> elasticity (run evs (constructor w h t0 t1)) \<and>
   activeMaterialIndex (run evs (constructor w h t0 t1)) < length materials \<and>
   length materials = 2 \<and>
   activeMaterialIndex (run evs (constructor w h t0 t1)) \<in> {0, 1}"
proof -
  have "app_inv (run evs (constructor w h t0 t1))"
    using app_inv_constructor by (rule app_inv_run)
  then have "0 \<le> elasticity (run evs (constructor w h t0 t1))"
    and "activeMaterialIndex (run evs (constructor w h t0 t1)) < 2"
    by (simp_all add: app_inv_def materials_def)
  then show ?thesis by (auto simp add: materials_def)
qed

theorem C8_invariant_witness:
  "0 \<le> elasticity (run [Click 2000 [Vector3 1 2 3], Frame 2016, KeyDown ''m'', Resize 1024 768]
      (constructor 800 600 0 16)) \<and>
   activeMaterialIndex (run [Click 2000 [Vector3 1 2 3], Frame 2016, KeyDown ''m'', Resize 1024 768]
      (constructor 800 600 0 16)) \<in> {0, 1} \<and>
   elasticity (run [Click 2000 [Vector3 1 2 3], Frame 2016, KeyDown ''m'', Resize 1024 768]
      (constructor 800 600 0 16)) = 49 / 50 \<and>
   activeMaterialIndex (run [Click 2000 [Vector3 1 2 3], Frame 2016, KeyDown ''m'', Resize 1024 768]
      (constructor 800 600 0 16)) = 1"
proof -
  have "elasticity (run [Click 2000 [Vector3 1 2 3], Frame 2016, KeyDown ''m'', Resize 1024 768]
      (constructor 800 600 0 16)) = 49 / 50"
    by (simp add: run_def onWindowResize_def onKeyPress_def Let_def elasticity_animate
        elasticity_click_hit spec_decay_def)
  moreover have "activeMaterialIndex (run [Click 2000 [Vector3 1 2 3], Frame 2016, KeyDown ''m'',
      Resize 1024 768] (constructor 800 600 0 16)) = 1"
    by (simp add: run_def onWindowResize_def onKeyPress_def onDocumentClick_def Let_def
        animate_fields constructor_fields materials_def)
  ultimately show ?thesis
    using C8_invariant [of "[Click 2000 [Vector3 1 2 3], Frame 2016, KeyDown ''m'', Resize 1024 768]"
        800 600 0 16]
    by blast
qed

subsection \<open>C9 and C10: the fields \<open>clickTime\<close> and \<open>clickPosition\<close>\<close>

text \<open>
  C9. Every click, hit or miss, stores the time since the start at the click, that is
  the clock reading of the click minus \<open>startTime\<close>, in seconds, in the field
  \<open>clickTime\<close>. The store comes before the test of the intersections: on a hit the
  uniform is a copy of the field just written, and on a miss the field holds that time
  although the uniform is set to \<open>-1\<close>.
\<close>

theorem C9_click_sets_clickTime:
  "clickTime (onDocumentClick now intersects s) = real_of_int (now - startTime s) / 1000 \<and>
   u_clickTime (waveUniforms (onDocumentClick now (p # rest) s)) =
     clickTime (onDocumentClick now (p # rest) s) \<and>
   clickTime (onDocumentClick now [] s) = real_of_int (now - startTime s) / 1000 \<and>
   u_clickTime (waveUniforms (onDocumentClick now [] s)) = - 1"
  by (simp add: onDocumentClick_def Let_def elapsed_def)

text \<open>
  The application starts at clock reading 5000. A miss at 7000 changes the field from
  \<open>-1\<close> to 2, the seconds since the start, while the uniform is \<open>-1\<close>; a hit at 7000
  puts 2 into both.
\<close>

theorem C9_click_sets_clickTime_witness:
  "startTime (constructor 800 600 5000 5016) = 5000 \<and>
   clickTime (constructor 800 600 5000 5016) = - 1 \<and>
   clickTime (onDocumentClick 7000 [] (constructor 800 600 5000 5016)) = 2 \<and>
   u_clickTime (waveUniforms (onDocumentClick 7000 [] (constructor 800 600 5000 5016))) = - 1 \<and>
   clickTime (onDocumentClick 7000 [Vector3 1 2 3] (constructor 800 600 5000 5016)) = 2 \<and>
   u_clickTime (waveUniforms (onDocumentClick 7000 [Vector3 1 2 3] (constructor 800 600 5000 5016)))
     = 2"
  using C9_click_sets_clickTime [of 7000 "[]" "constructor 800 600 5000 5016" "Vector3 1 2 3" "[]"]
    C9_click_sets_clickTime
      [of 7000 "[Vector3 1 2 3]" "constructor 800 600 5000 5016" "Vector3 1 2 3" "[]"]
  by (simp add: constructor_fields)

text \<open>
  C10. No handler writes the field \<open>clickPosition\<close>: after any run it still holds the
  vector that the constructor gave it. A click that hits writes the point into the wave
  material's uniform and leaves the field alone.
\<close>

theorem C10_clickPosition_constant:
  "clickPosition (run evs (constructor w h t0 t1)) = Vector3 (- 1) (- 1) 0 \<and>
   clickPosition (dispatch ev s) = clickPosition s \<and>
   clickPosition (onDocumentClick now (p # rest) s) = clickPosition s \<and>
   u_clickPosition (waveUniforms (onDocumentClick now (p # rest) s)) = p"
  by (simp add: clickPosition_run clickPosition_dispatch constructor_fields
      onDocumentClick_def Let_def)

theorem C10_clickPosition_constant_witness:
  "clickPosition (run [Click 2000 [Vector3 1 2 3], Frame 2016] (constructor 800 600 0 16))
     = Vector3 (- 1) (- 1) 0 \<and>
   u_clickPosition (waveUniforms (run [Click 2000 [Vector3 1 2 3], Frame 2016]
     (constructor 800 600 0 16))) = Vector3 1 2 3"
proof -
  have "u_clickPosition (waveUniforms (run [Click 2000 [Vector3 1 2 3], Frame 2016]
     (constructor 800 600 0 16))) = Vector3 1 2 3"
    by (simp add: run_def animate_def onDocumentClick_def Let_def materials_def frame_uniforms_def)
  then show ?thesis
    using C10_clickPosition_constant [of "[Click 2000 [Vector3 1 2 3], Frame 2016]" 800 600 0 16]
    by blast
qed

end
